theory Spec2Isabelle
  imports
    Main
    "HOL-Library.Sublist"
    "HOL-Library.Char_ord"
    "HOL-Library.List_Lexorder"
begin

section \<open>http-trace: the request tracer and the report renderer\<close>

text \<open>
  A shallow embedding of \<^verbatim>\<open>trace/trace.go\<close> and \<^verbatim>\<open>report/report.go\<close>.

  Go strings are byte sequences, so a string is a \<^typ>\<open>char list\<close>.  A
  \<^verbatim>\<open>time.Duration\<close> is a count of nanoseconds; the code only subtracts readings of
  one monotonic clock taken during a single call, so durations are \<^typ>\<open>int\<close>.
  Pointers that the code leaves nil on some path are \<^typ>\<open>'a option\<close>.
  What the surrounding world does during a call (the observers the HTTP stack
  fires and the clock readings they take, the outcome of \<^verbatim>\<open>client.Do\<close>, the
  outcome of reading the body) is an explicit input of the model.

  The tracer is given an allocated client and a request made by
  \<^verbatim>\<open>http.NewRequest\<close>, whose header map is allocated; the observers of one
  exchange are taken in the sequence in which they are delivered.
\<close>

subsection \<open>Errors and panics\<close>

text \<open>
  A Go \<^verbatim>\<open>error\<close>: a plain message, or the value built by \<^verbatim>\<open>fmt.Errorf\<close>
  with one \<^verbatim>\<open>%w\<close> verb, which keeps the formatted message and the wrapped error.
\<close>

datatype go_error = errorString string | wrapError string go_error

fun Error :: "go_error \<Rightarrow> string" where
  "Error (errorString s) = s"
| "Error (wrapError msg err) = msg"

fun Unwrap :: "go_error \<Rightarrow> go_error option" where
  "Unwrap (errorString s) = None"
| "Unwrap (wrapError msg err) = Some err"

text \<open>\<^verbatim>\<open>fmt.Errorf(prefix + "%w", err)\<close>.\<close>

definition Errorf_w :: "string \<Rightarrow> go_error \<Rightarrow> go_error" where
  "Errorf_w pre err = wrapError (pre @ Error err) err"

text \<open>The run-time panic of an index expression: the index and the length.\<close>

datatype panic = IndexOutOfRange nat nat

definition index :: "'a list \<Rightarrow> nat \<Rightarrow> panic + 'a" where
  "index xs i = (if i < length xs then Inr (xs ! i) else Inl (IndexOutOfRange i (length xs)))"

subsection \<open>The timing record\<close>

record Timings =
  getConnStart :: int
  connectStart :: int
  dnsStart :: int
  tlsStart :: int
  requestStart :: int
  delayStart :: int
  responseStart :: int
  DNSDuration :: int
  ConnectionDialDuration :: int
  TLSDuration :: int
  TotalConnectionDuration :: int
  RequestWriteDuration :: int
  ResponseDelayDuration :: int
  ResponseReadDuration :: int
  TotalRequestDuration :: int

text \<open>The zero value \<^verbatim>\<open>Timings{}\<close>.\<close>

definition zeroTimings :: Timings where
  "zeroTimings = \<lparr>getConnStart = 0, connectStart = 0, dnsStart = 0, tlsStart = 0,
     requestStart = 0, delayStart = 0, responseStart = 0,
     DNSDuration = 0, ConnectionDialDuration = 0, TLSDuration = 0,
     TotalConnectionDuration = 0, RequestWriteDuration = 0, ResponseDelayDuration = 0,
     ResponseReadDuration = 0, TotalRequestDuration = 0\<rparr>"

subsection \<open>Requests, responses and the client\<close>

text \<open>
  A \<^verbatim>\<open>context.Context\<close> as far as the tracer touches it: the background
  context, or a context that \<^verbatim>\<open>httptrace.WithClientTrace\<close> derived from a parent by
  attaching the observers of \<^verbatim>\<open>Execute\<close>.
\<close>

datatype Context = Background | WithClientTrace Context

record URL =
  Host :: string
  Path :: string

type_synonym Header = "string \<rightharpoonup> string list"

text \<open>
  The fields of \<^verbatim>\<open>http.Request\<close> that the repository reads or writes.
  \<^verbatim>\<open>Body\<close> is the payload to send, \<^verbatim>\<open>None\<close> for a request without one.
\<close>

record Request =
  Method :: string
  URL :: "URL option"
  Proto :: string
  Header :: Header
  Body :: "string option"
  ctx :: Context

text \<open>\<^verbatim>\<open>(*Request).WithContext\<close>: a shallow copy with the context replaced.\<close>

definition WithContext :: "Request \<Rightarrow> Context \<Rightarrow> Request" where
  "WithContext r c = r\<lparr>ctx := c\<rparr>"

text \<open>
  A response body stream: the bytes \<^verbatim>\<open>ioutil.ReadAll\<close> will deliver, the error it
  will end with (if any), and whether the stream has been closed.
\<close>

record body_stream =
  bytes :: string
  readErr :: "go_error option"
  closed :: bool

definition ReadAll :: "body_stream \<Rightarrow> string \<times> go_error option" where
  "ReadAll b = (bytes b, readErr b)"

definition Close :: "body_stream \<Rightarrow> body_stream" where
  "Close b = b\<lparr>closed := True\<rparr>"

text \<open>
  The fields of \<^verbatim>\<open>http.Response\<close> in use.  \<^verbatim>\<open>RespHeader\<close> and \<^verbatim>\<open>RespBody\<close>
  are its \<^verbatim>\<open>Header\<close> and \<^verbatim>\<open>Body\<close> (record fields share one name space).
\<close>

record Response =
  Status :: string
  StatusCode :: int
  RespHeader :: Header
  RespBody :: body_stream

text \<open>
  The observers of \<^verbatim>\<open>httptrace.ClientTrace\<close> that \<^verbatim>\<open>Execute\<close> installs, as the
  events the HTTP stack delivers.  Each event carries the values that the calls of
  \<^verbatim>\<open>timeSinceStart()\<close> inside the observer return, in the order of the calls.
  \<^verbatim>\<open>GotConn reused a b\<close>: \<^verbatim>\<open>a\<close> is the reading inside the \<^verbatim>\<open>if\<close> (taken only
  when the connection is not reused), \<^verbatim>\<open>b\<close> the reading after it.
\<close>

datatype event =
    GetConn int
  | GotConn bool int int
  | GotFirstResponseByte int int
  | DNSStart int
  | DNSDone int
  | ConnectStart int
  | ConnectDone int
  | TLSHandshakeStart int
  | TLSHandshakeDone int
  | WroteRequest int int

text \<open>
  \<^verbatim>\<open>client.Do\<close>: for the request it is given, the observers fired while the
  call runs and then either an error or a response.
\<close>

record Client =
  Do :: "Request \<Rightarrow> event list \<times> (go_error + Response)"

record Trace =
  timings :: Timings
  client :: Client
  request :: Request
  response :: "Response option"
  responseBody :: string

definition New :: "Client \<Rightarrow> Request \<Rightarrow> Trace" where
  "New client' request' =
     \<lparr>timings = zeroTimings, client = client', request = request',
      response = None, responseBody = []\<rparr>"

subsection \<open>SetHeaders\<close>

text \<open>\<^verbatim>\<open>strings.Index\<close> for a one-byte separator; \<^verbatim>\<open>None\<close> is Go's \<^verbatim>\<open>-1\<close>.\<close>

fun IndexByte :: "string \<Rightarrow> char \<Rightarrow> nat option" where
  "IndexByte [] c = None"
| "IndexByte (x # xs) c = (if x = c then Some 0 else map_option Suc (IndexByte xs c))"

text \<open>
  \<^verbatim>\<open>strings.SplitN(s, sep, n)\<close> for a one-byte separator and \<^verbatim>\<open>n \<ge> 0\<close>: at most
  \<^verbatim>\<open>n\<close> pieces, the last one the unsplit remainder.
\<close>

fun SplitN :: "string \<Rightarrow> char \<Rightarrow> nat \<Rightarrow> string list" where
  "SplitN s sep 0 = []"
| "SplitN s sep (Suc 0) = [s]"
| "SplitN s sep (Suc (Suc n)) =
     (case IndexByte s sep of
        None \<Rightarrow> [s]
      | Some m \<Rightarrow> take m s # SplitN (drop (m + 1) s) sep (Suc n))"

text \<open>
  The UTF-8 encodings of the code points for which \<^verbatim>\<open>unicode.IsSpace\<close> holds:
  the six ASCII ones, U+0085, U+00A0, U+1680, U+2000 to U+200A, U+2028, U+2029,
  U+202F, U+205F and U+3000.
\<close>

definition spaceRunes :: "string list" where
  "spaceRunes =
     [[CHR 0x09], [CHR 0x0A], [CHR 0x0B], [CHR 0x0C], [CHR 0x0D], [CHR 0x20],
      [CHR 0xC2, CHR 0x85], [CHR 0xC2, CHR 0xA0],
      [CHR 0xE1, CHR 0x9A, CHR 0x80],
      [CHR 0xE2, CHR 0x80, CHR 0x80], [CHR 0xE2, CHR 0x80, CHR 0x81],
      [CHR 0xE2, CHR 0x80, CHR 0x82], [CHR 0xE2, CHR 0x80, CHR 0x83],
      [CHR 0xE2, CHR 0x80, CHR 0x84], [CHR 0xE2, CHR 0x80, CHR 0x85],
      [CHR 0xE2, CHR 0x80, CHR 0x86], [CHR 0xE2, CHR 0x80, CHR 0x87],
      [CHR 0xE2, CHR 0x80, CHR 0x88], [CHR 0xE2, CHR 0x80, CHR 0x89],
      [CHR 0xE2, CHR 0x80, CHR 0x8A],
      [CHR 0xE2, CHR 0x80, CHR 0xA8], [CHR 0xE2, CHR 0x80, CHR 0xA9],
      [CHR 0xE2, CHR 0x80, CHR 0xAF],
      [CHR 0xE2, CHR 0x81, CHR 0x9F],
      [CHR 0xE3, CHR 0x80, CHR 0x80]]"

text \<open>
  \<^verbatim>\<open>strings.TrimLeftFunc\<close> for a predicate given by the encodings of the runes it
  accepts: while the string starts with one of them, drop it.
\<close>

function trimLeftRunes :: "string list \<Rightarrow> string \<Rightarrow> string" where
  "trimLeftRunes ws s =
     (case find (\<lambda>w. w \<noteq> [] \<and> prefix w s) ws of
        None \<Rightarrow> s
      | Some w \<Rightarrow> trimLeftRunes ws (drop (length w) s))"
  by pat_completeness auto
termination
proof (relation "measure (\<lambda>(ws, s). length s)")
  show "wf (measure (\<lambda>(ws, s). length s))" by simp
next
  fix ws :: "string list" and s w :: string
  assume "find (\<lambda>w. w \<noteq> [] \<and> prefix w s) ws = Some w"
  then have "w \<noteq> []" and "prefix w s"
    by (auto simp: find_Some_iff)
  then have "length s - length w < length s"
    by (cases w) (auto dest: prefix_length_le)
  then show "((ws, drop (length w) s), (ws, s)) \<in> measure (\<lambda>(ws, s). length s)"
    by simp
qed

declare trimLeftRunes.simps [simp del]

text \<open>\<^verbatim>\<open>strings.TrimRightFunc\<close>, the same from the end of the string.\<close>

definition trimRightRunes :: "string list \<Rightarrow> string \<Rightarrow> string" where
  "trimRightRunes ws s = rev (trimLeftRunes (map rev ws) (rev s))"

text \<open>\<^verbatim>\<open>strings.TrimSpace\<close>: \<^verbatim>\<open>TrimFunc(s, unicode.IsSpace)\<close>.\<close>

definition TrimSpace :: "string \<Rightarrow> string" where
  "TrimSpace s = trimRightRunes spaceRunes (trimLeftRunes spaceRunes s)"

text \<open>
  \<^verbatim>\<open>textproto.CanonicalMIMEHeaderKey\<close>, which \<^verbatim>\<open>Header.Set\<close> applies to the
  key: a key made of header-token bytes only gets its first letter and every letter
  after a hyphen in upper case and all other letters in lower case; any other key
  (one with a space, for instance) is returned as it is.
\<close>

definition isLower :: "char \<Rightarrow> bool" where
  "isLower c = (CHR ''a'' \<le> c \<and> c \<le> CHR ''z'')"

definition isUpper :: "char \<Rightarrow> bool" where
  "isUpper c = (CHR ''A'' \<le> c \<and> c \<le> CHR ''Z'')"

definition isDigit :: "char \<Rightarrow> bool" where
  "isDigit c = (CHR ''0'' \<le> c \<and> c \<le> CHR ''9'')"

definition toUpper :: "char \<Rightarrow> char" where
  "toUpper c = char_of (of_char c - (32::nat))"

definition toLower :: "char \<Rightarrow> char" where
  "toLower c = char_of (of_char c + (32::nat))"

definition validHeaderFieldByte :: "char \<Rightarrow> bool" where
  "validHeaderFieldByte c =
     (isLower c \<or> isUpper c \<or> isDigit c \<or>
      c \<in> set [CHR 0x21, CHR 0x23, CHR 0x24, CHR 0x25, CHR 0x26, CHR 0x27, CHR 0x2A,
                CHR 0x2B, CHR 0x2D, CHR 0x2E, CHR 0x5E, CHR 0x5F, CHR 0x60, CHR 0x7C,
                CHR 0x7E])"

fun canonicalCase :: "bool \<Rightarrow> string \<Rightarrow> string" where
  "canonicalCase upper [] = []"
| "canonicalCase upper (c # cs) =
     (let c' = (if upper \<and> isLower c then toUpper c
                else if \<not> upper \<and> isUpper c then toLower c
                else c)
      in c' # canonicalCase (c' = CHR ''-'') cs)"

definition CanonicalMIMEHeaderKey :: "string \<Rightarrow> string" where
  "CanonicalMIMEHeaderKey s =
     (if list_all validHeaderFieldByte s then canonicalCase True s else s)"

text \<open>\<^verbatim>\<open>Header.Set(key, value)\<close>: the canonical key now maps to the one value.\<close>

definition Header_Set :: "Header \<Rightarrow> string \<Rightarrow> string \<Rightarrow> Header" where
  "Header_Set h key v = h(CanonicalMIMEHeaderKey key \<mapsto> [v])"

text \<open>
  \<^verbatim>\<open>SetHeaders\<close>.  The header map of the request is updated in place, entry after
  entry, so a panic at one entry leaves the earlier entries set: the result is the
  panic, if any, and the tracer as it is at that moment.
\<close>

fun SetHeaders :: "string list \<Rightarrow> Trace \<Rightarrow> panic option \<times> Trace" where
  "SetHeaders [] t = (None, t)"
| "SetHeaders (full # raw) t =
     (let split = SplitN full (CHR '':'') 2 in
      case index split 0 of
        Inl p \<Rightarrow> (Some p, t)
      | Inr s0 \<Rightarrow>
          let headerTrim = TrimSpace s0 in
          (case index split 1 of
             Inl p \<Rightarrow> (Some p, t)
           | Inr s1 \<Rightarrow>
               let valueTrim = TrimSpace s1 in
               SetHeaders raw
                 (t\<lparr>request := (request t)\<lparr>Header :=
                       Header_Set (Header (request t)) headerTrim valueTrim\<rparr>\<rparr>)))"

subsection \<open>Execute\<close>

text \<open>The observers installed by \<^verbatim>\<open>Execute\<close>, one equation per callback.\<close>

fun hook :: "Timings \<Rightarrow> event \<Rightarrow> Timings" where
  "hook tm (GetConn a) = tm\<lparr>getConnStart := a\<rparr>"
| "hook tm (GotConn reused a b) =
     (let tm' = (if \<not> reused then tm\<lparr>TotalConnectionDuration := a - getConnStart tm\<rparr> else tm)
      in tm'\<lparr>requestStart := b\<rparr>)"
| "hook tm (GotFirstResponseByte a b) =
     tm\<lparr>ResponseDelayDuration := a - delayStart tm, responseStart := b\<rparr>"
| "hook tm (DNSStart a) = tm\<lparr>dnsStart := a\<rparr>"
| "hook tm (DNSDone a) = tm\<lparr>DNSDuration := a - dnsStart tm\<rparr>"
| "hook tm (ConnectStart a) = tm\<lparr>connectStart := a\<rparr>"
| "hook tm (ConnectDone a) = tm\<lparr>ConnectionDialDuration := a - connectStart tm\<rparr>"
| "hook tm (TLSHandshakeStart a) = tm\<lparr>tlsStart := a\<rparr>"
| "hook tm (TLSHandshakeDone a) = tm\<lparr>TLSDuration := a - tlsStart tm\<rparr>"
| "hook tm (WroteRequest a b) =
     tm\<lparr>RequestWriteDuration := a - requestStart tm, delayStart := b\<rparr>"

text \<open>
  \<^verbatim>\<open>Execute\<close>.  \<^verbatim>\<open>requestStartTime\<close> and \<^verbatim>\<open>finishTime\<close> are the readings of
  \<^verbatim>\<open>timeSinceStart()\<close> at the start of the call and after the body is read;
  \<^verbatim>\<open>stderr\<close> is what has been written to the diagnostic stream so far.  The result
  is the returned error (\<^verbatim>\<open>None\<close> for nil), the tracer and the diagnostic stream.
  The observers run while \<^verbatim>\<open>client.Do\<close> runs, whether it ends with a response or
  with an error, and each of them is run once per event: the request carries no
  observers of an earlier \<^verbatim>\<open>Execute\<close>.
\<close>

definition Execute :: "int \<Rightarrow> int \<Rightarrow> string \<Rightarrow> Trace \<Rightarrow> go_error option \<times> Trace \<times> string" where
  "Execute requestStartTime finishTime stderr t =
     (let req = WithContext (request t) (WithClientTrace (ctx (request t)));
          t1 = t\<lparr>request := req\<rparr>;
          (evs, res) = Do (client t1) (request t1);
          t2 = t1\<lparr>timings := foldl hook (timings t1) evs\<rparr>
      in case res of
           Inl err \<Rightarrow> (Some (Errorf_w ''error sending request: '' err), t2, stderr)
         | Inr resp \<Rightarrow>
             let (responseBodyBytes, rerr) = ReadAll (RespBody resp);
                 (responseBodyBytes', stderr') =
                    (case rerr of
                       None \<Rightarrow> (responseBodyBytes, stderr)
                     | Some err \<Rightarrow>
                         let readingBodyError = ''Error reading response body: '' @ Error err
                         in (readingBodyError, stderr @ readingBodyError @ ''\<newline>''));
                 resp' = resp\<lparr>RespBody := Close (RespBody resp)\<rparr>;
                 t3 = t2\<lparr>response := Some resp', responseBody := responseBodyBytes'\<rparr>;
                 t4 = t3\<lparr>timings := (timings t3)
                        \<lparr>ResponseReadDuration := finishTime - responseStart (timings t3),
                         TotalRequestDuration := finishTime - requestStartTime\<rparr>\<rparr>
             in (None, t4, stderr'))"

text \<open>
  The accessors.  Each is a method on the tracer, so each returns the tracer next
  to its value.
\<close>

definition GetResponse :: "Trace \<Rightarrow> Response option \<times> Trace" where
  "GetResponse t = (response t, t)"

definition GetResponseBody :: "Trace \<Rightarrow> string \<times> Trace" where
  "GetResponseBody t = (responseBody t, t)"

definition GetTimings :: "Trace \<Rightarrow> Timings \<times> Trace" where
  "GetTimings t = (timings t, t)"

subsection \<open>The report\<close>

record Presentation =
  SuppressHeaders :: bool
  SuppressBody :: bool

record reportData =
  Request :: "Request option"
  Response :: "Response option"
  ResponseBody :: string
  Timings :: "Timings option"
  Presentation :: "Presentation option"

record Report =
  data :: reportData
  output' :: string

definition New_report ::
    "Request option \<Rightarrow> Response option \<Rightarrow> string \<Rightarrow> Timings option \<Rightarrow> Presentation option \<Rightarrow> Report" where
  "New_report req res body result pres =
     \<lparr>data = \<lparr>Request = req, Response = res, ResponseBody = body, Timings = result,
              Presentation = pres\<rparr>,
      output' = []\<rparr>"

text \<open>\<^verbatim>\<open>strings.Join\<close>, the template function \<^verbatim>\<open>stringsJoin\<close>.\<close>

fun Join :: "string list \<Rightarrow> string \<Rightarrow> string" where
  "Join [] sep = []"
| "Join [x] sep = x"
| "Join (x # y # ys) sep = x @ sep @ Join (y # ys) sep"

text \<open>
  The error with which \<^verbatim>\<open>text/template\<close> stops when an action selects a field
  of a nil pointer; the string names the pointer type and the field.
\<close>

datatype exec_error = NilPointerEvaluating string

definition field :: "string \<Rightarrow> 'a option \<Rightarrow> ('a \<Rightarrow> exec_error + 'b) \<Rightarrow> exec_error + 'b" where
  "field name p k = (case p of None \<Rightarrow> Inl (NilPointerEvaluating name) | Some v \<Rightarrow> k v)"

text \<open>
  \<^verbatim>\<open>{{ range $key, $value := m }}\<close> over a map.  \<^verbatim>\<open>keys\<close> is the list of the
  map's keys in the order in which the run time hands them out, which Go leaves
  unspecified; the template engine sorts the keys and then visits each key with its
  value.
\<close>

definition rangeMap :: "string list \<Rightarrow> Header \<Rightarrow> (string \<Rightarrow> string list \<Rightarrow> string) \<Rightarrow> string" where
  "rangeMap keys m body =
     concat (map (\<lambda>key. body key (case m key of None \<Rightarrow> [] | Some value \<Rightarrow> value)) (sort keys))"

text \<open>
  The template \<^verbatim>\<open>outputTmpl\<close>, executed on the report data.  A \<^verbatim>\<open>{{-\<close> removes
  the white space of the template text before it, so each line break of the output
  stands in front of the line it starts.  \<^verbatim>\<open>durationMillis\<close> is the template
  function of that name: it formats a floating-point number, and is taken here as
  any function from durations to text.  \<^verbatim>\<open>reqKeys\<close> and \<^verbatim>\<open>resKeys\<close> are the key
  orders of the two header maps.  The nil checks come in the order in which the
  template reaches the fields.
\<close>

definition outputTmpl ::
    "(int \<Rightarrow> string) \<Rightarrow> string list \<Rightarrow> string list \<Rightarrow> reportData \<Rightarrow> exec_error + string" where
  "outputTmpl durationMillis reqKeys resKeys d =
     field ''*http.Request.Method'' (Request d) (\<lambda>req.
     field ''*url.URL.Host'' (URL req) (\<lambda>url.
     field ''*http.Response.Status'' (Response d) (\<lambda>res.
     field ''*report.Presentation.SuppressHeaders'' (Presentation d) (\<lambda>pres.
     field ''*trace.Timings.DNSDuration'' (Timings d) (\<lambda>tm.
       Inr (''> '' @ Method req @ '' '' @ Host url @ Path url @ '' '' @ Proto req
         @ rangeMap reqKeys (Header req)
             (\<lambda>key value. ''\<newline>> '' @ key @ '': '' @ Join value [])
         @ ''\<newline>>\<newline>< '' @ Status res
         @ (if \<not> SuppressHeaders pres
            then rangeMap resKeys (RespHeader res)
                   (\<lambda>key value. ''\<newline>< '' @ key @ '': '' @ Join value [])
            else [])
         @ (if \<not> SuppressBody pres then ''\<newline>'' @ ResponseBody d else [])
         @ ''\<newline>\<newline>Trace\<newline>  Request\<newline>    Connection\<newline>      DNS Resolution:  ''
         @ durationMillis (DNSDuration tm)
         @ ''\<newline>      Connecting:      '' @ durationMillis (ConnectionDialDuration tm)
         @ ''\<newline>      TLS handshake:   '' @ durationMillis (TLSDuration tm)
         @ ''\<newline>    Connection total:  '' @ durationMillis (TotalConnectionDuration tm)
         @ ''\<newline>\<newline>    Request write:     '' @ durationMillis (RequestWriteDuration tm)
         @ ''\<newline>    Response delay:    '' @ durationMillis (ResponseDelayDuration tm)
         @ ''\<newline>    Response read:     '' @ durationMillis (ResponseReadDuration tm)
         @ ''\<newline>\<newline>  Request total:       '' @ durationMillis (TotalRequestDuration tm)
         @ ''\<newline>''))))))"

text \<open>
  \<^verbatim>\<open>Build\<close>: the error of the template, wrapped, or the report with its output set.
\<close>

datatype build_error = ErrorBuildingReport exec_error

definition Build ::
    "(int \<Rightarrow> string) \<Rightarrow> string list \<Rightarrow> string list \<Rightarrow> Report \<Rightarrow> build_error option \<times> Report" where
  "Build durationMillis reqKeys resKeys r =
     (case outputTmpl durationMillis reqKeys resKeys (data r) of
        Inl err \<Rightarrow> (Some (ErrorBuildingReport err), r)
      | Inr b \<Rightarrow> (None, r\<lparr>output' := b\<rparr>))"

subsection \<open>Notions used in the statements\<close>

text \<open>The request that \<^verbatim>\<open>Execute\<close> hands to the client (line 105).\<close>

definition derivedRequest :: "Request \<Rightarrow> Request" where
  "derivedRequest r = WithContext r (WithClientTrace (ctx r))"

text \<open>The two assignments after the body is read (lines 124 and 125).\<close>

definition finish :: "int \<Rightarrow> int \<Rightarrow> Timings \<Rightarrow> Timings" where
  "finish requestStartTime finishTime tm =
     tm\<lparr>ResponseReadDuration := finishTime - responseStart tm,
        TotalRequestDuration := finishTime - requestStartTime\<rparr>"

text \<open>
  An event of an exchange on a pooled connection: no observer of the DNS lookup,
  the dial or the TLS handshake, and a connection reported as reused.
\<close>

fun reusedConnection :: "event \<Rightarrow> bool" where
  "reusedConnection (GotConn reused a b) = reused"
| "reusedConnection (DNSStart a) = False"
| "reusedConnection (DNSDone a) = False"
| "reusedConnection (ConnectStart a) = False"
| "reusedConnection (ConnectDone a) = False"
| "reusedConnection (TLSHandshakeStart a) = False"
| "reusedConnection (TLSHandshakeDone a) = False"
| "reusedConnection (GetConn a) = True"
| "reusedConnection (GotFirstResponseByte a b) = True"
| "reusedConnection (WroteRequest a b) = True"

text \<open>
  What the specification says one raw entry \<^verbatim>\<open>name:value\<close> does to the header
  map: the trimmed name, in the canonical form under which \<^verbatim>\<open>Header.Set\<close> files
  it, now maps to the trimmed value alone.
\<close>

definition setHeader :: "Header \<Rightarrow> string \<times> string \<Rightarrow> Header" where
  "setHeader h nv = h(CanonicalMIMEHeaderKey (TrimSpace (fst nv)) \<mapsto> [TrimSpace (snd nv)])"

text \<open>
  A list of the keys of a map as the run time may hand them out: every key once, in
  any order.
\<close>

definition mapKeys :: "Header \<Rightarrow> string list \<Rightarrow> bool" where
  "mapKeys m keys = (distinct keys \<and> set keys = dom m)"

text \<open>
  The layout of the report as \<^verbatim>\<open>report_test.go\<close> composes its expected output:
  blocks of whole lines.  A header block has one line per key, in the order of the
  keys, with the values joined without a separator.
\<close>

definition headerLines :: "string \<Rightarrow> Header \<Rightarrow> string" where
  "headerLines mark m =
     concat (map (\<lambda>key. mark @ '' '' @ key @ '': '' @ concat (the (m key)) @ ''\<newline>'')
               (sorted_list_of_set (dom m)))"

definition expectedRequestHeadersOutput :: "Request \<Rightarrow> URL \<Rightarrow> string" where
  "expectedRequestHeadersOutput req url =
     ''> '' @ Method req @ '' '' @ Host url @ Path url @ '' '' @ Proto req @ ''\<newline>''
     @ headerLines ''>'' (Header req) @ ''>\<newline>''"

definition expectedResponseStatusOutput :: "Response \<Rightarrow> string" where
  "expectedResponseStatusOutput res = ''< '' @ Status res @ ''\<newline>''"

definition expectedResponseHeadersOutput :: "Response \<Rightarrow> string" where
  "expectedResponseHeadersOutput res = headerLines ''<'' (RespHeader res)"

definition expectedTraceOutput :: "(int \<Rightarrow> string) \<Rightarrow> Timings \<Rightarrow> string" where
  "expectedTraceOutput durationMillis tm =
     ''Trace\<newline>''
     @ ''  Request\<newline>''
     @ ''    Connection\<newline>''
     @ ''      DNS Resolution:  '' @ durationMillis (DNSDuration tm) @ ''\<newline>''
     @ ''      Connecting:      '' @ durationMillis (ConnectionDialDuration tm) @ ''\<newline>''
     @ ''      TLS handshake:   '' @ durationMillis (TLSDuration tm) @ ''\<newline>''
     @ ''    Connection total:  '' @ durationMillis (TotalConnectionDuration tm) @ ''\<newline>''
     @ ''\<newline>''
     @ ''    Request write:     '' @ durationMillis (RequestWriteDuration tm) @ ''\<newline>''
     @ ''    Response delay:    '' @ durationMillis (ResponseDelayDuration tm) @ ''\<newline>''
     @ ''    Response read:     '' @ durationMillis (ResponseReadDuration tm) @ ''\<newline>''
     @ ''\<newline>''
     @ ''  Request total:       '' @ durationMillis (TotalRequestDuration tm) @ ''\<newline>''"

subsection \<open>Example exchanges\<close>

text \<open>The request and the response of \<^verbatim>\<open>report_test.go\<close>.\<close>

definition exampleRequest :: Request where
  "exampleRequest =
     \<lparr>Method = ''GET'', URL = Some \<lparr>Host = ''thing.com'', Path = []\<rparr>, Proto = ''HTTP/1.1'',
      Header = [''X-Hello'' \<mapsto> [''hi'']], Body = None, ctx = Background\<rparr>"

definition exampleResponse :: Response where
  "exampleResponse =
     \<lparr>Status = ''200 OK'', StatusCode = 200,
      RespHeader = [''Content-Type'' \<mapsto> [''text/html; charset=utf-8''],
                    ''Vary'' \<mapsto> [''Accept-Encoding''],
                    ''X-Some-Header'' \<mapsto> [''one'', ''two'', ''three'']],
      RespBody = \<lparr>bytes = ''<html></html>'', readErr = None, closed = False\<rparr>\<rparr>"

definition notFoundResponse :: Response where
  "notFoundResponse = exampleResponse\<lparr>Status := ''404 Not Found'', StatusCode := 404\<rparr>"

definition brokenBodyResponse :: Response where
  "brokenBodyResponse =
     exampleResponse\<lparr>RespBody :=
       \<lparr>bytes = ''<html>'', readErr = Some (errorString ''unexpected EOF''), closed = False\<rparr>\<rparr>"

text \<open>A client that answers every request with the given observers and outcome.\<close>

definition exampleClient :: "event list \<Rightarrow> go_error + Response \<Rightarrow> Client" where
  "exampleClient evs res = \<lparr>Do = (\<lambda>r. (evs, res))\<rparr>"

text \<open>A fresh TLS connection, one round trip.\<close>

definition freshEvents :: "event list" where
  "freshEvents =
     [GetConn 1, DNSStart 2, DNSDone 12, ConnectStart 12, ConnectDone 22,
      TLSHandshakeStart 22, TLSHandshakeDone 52, GotConn False 53 53,
      WroteRequest 54 54, GotFirstResponseByte 90 90]"

text \<open>A pooled connection, one round trip.\<close>

definition reusedEvents :: "event list" where
  "reusedEvents = [GetConn 1, GotConn True 2 2, WroteRequest 3 3, GotFirstResponseByte 8 8]"

text \<open>The dial is still under way when the client's timeout expires.\<close>

definition timeoutEvents :: "event list" where
  "timeoutEvents = [GetConn 1, DNSStart 2, DNSDone 12, ConnectStart 13]"

definition timeoutError :: go_error where
  "timeoutError = errorString ''context deadline exceeded''"

text \<open>
  A redirect, which the client follows inside \<^verbatim>\<open>Do\<close> with the same context and so
  the same observers: the first round trip on a fresh TLS connection to one host, the
  second on a fresh plain connection to another.
\<close>

definition redirectEvents :: "event list" where
  "redirectEvents =
     [GetConn 0, DNSStart 0, DNSDone 10, ConnectStart 10, ConnectDone 20,
      TLSHandshakeStart 20, TLSHandshakeDone 50, GotConn False 50 50,
      WroteRequest 51 51, GotFirstResponseByte 60 60,
      GetConn 61, DNSStart 61, DNSDone 62, ConnectStart 62, ConnectDone 63,
      GotConn False 63 63, WroteRequest 64 64, GotFirstResponseByte 70 70]"

text \<open>
  The body and the timings of \<^verbatim>\<open>report_test.go\<close> (in nanoseconds), and the texts
  that the test expects for the eight durations.
\<close>

definition testBody :: string where
  "testBody = ''<html>\<newline><head>\<newline><title>Welcome to nginx!</title>\<newline></head>\<newline>''
     @ ''<body bgcolor=\"white\" text=\"black\">\<newline>''
     @ ''<center><h1>Welcome to the website!</h1></center>\<newline></body>\<newline></html>''"

definition testTimings :: Timings where
  "testTimings = zeroTimings
     \<lparr>DNSDuration := 2293000, ConnectionDialDuration := 22664000, TLSDuration := 299741000,
      TotalConnectionDuration := 324931000, RequestWriteDuration := 48000,
      ResponseDelayDuration := 480966000, ResponseReadDuration := 22933000,
      TotalRequestDuration := 828987000\<rparr>"

definition testMillis :: "int \<Rightarrow> string" where
  "testMillis d =
     (if d = 2293000 then ''     2.29ms''
      else if d = 22664000 then ''    22.66ms''
      else if d = 299741000 then ''   299.74ms''
      else if d = 324931000 then ''   324.93ms''
      else if d = 48000 then ''     0.05ms''
      else if d = 480966000 then ''   480.97ms''
      else if d = 22933000 then ''    22.93ms''
      else if d = 828987000 then ''   828.99ms''
      else [])"

text \<open>
  The expected output of the first and of the last case of \<^verbatim>\<open>TestReport\<close>:
  nothing suppressed, and headers and body suppressed.
\<close>

definition expectedFull :: string where
  "expectedFull =
       ''> GET thing.com HTTP/1.1\<newline>''
       @ ''> X-Hello: hi\<newline>''
       @ ''>\<newline>''
       @ ''< 200 OK\<newline>''
       @ ''< Content-Type: text/html; charset=utf-8\<newline>''
       @ ''< Vary: Accept-Encoding\<newline>''
       @ ''< X-Some-Header: onetwothree\<newline>''
       @ ''<html>\<newline>''
       @ ''<head>\<newline>''
       @ ''<title>Welcome to nginx!</title>\<newline>''
       @ ''</head>\<newline>''
       @ ''<body bgcolor=\"white\" text=\"black\">\<newline>''
       @ ''<center><h1>Welcome to the website!</h1></center>\<newline>''
       @ ''</body>\<newline>''
       @ ''</html>\<newline>''
       @ ''\<newline>''
       @ ''Trace\<newline>''
       @ ''  Request\<newline>''
       @ ''    Connection\<newline>''
       @ ''      DNS Resolution:       2.29ms\<newline>''
       @ ''      Connecting:          22.66ms\<newline>''
       @ ''      TLS handshake:      299.74ms\<newline>''
       @ ''    Connection total:     324.93ms\<newline>''
       @ ''\<newline>''
       @ ''    Request write:          0.05ms\<newline>''
       @ ''    Response delay:       480.97ms\<newline>''
       @ ''    Response read:         22.93ms\<newline>''
       @ ''\<newline>''
       @ ''  Request total:          828.99ms\<newline>''"

definition expectedSuppressed :: string where
  "expectedSuppressed =
       ''> GET thing.com HTTP/1.1\<newline>''
       @ ''> X-Hello: hi\<newline>''
       @ ''>\<newline>''
       @ ''< 200 OK\<newline>''
       @ ''\<newline>''
       @ ''Trace\<newline>''
       @ ''  Request\<newline>''
       @ ''    Connection\<newline>''
       @ ''      DNS Resolution:       2.29ms\<newline>''
       @ ''      Connecting:          22.66ms\<newline>''
       @ ''      TLS handshake:      299.74ms\<newline>''
       @ ''    Connection total:     324.93ms\<newline>''
       @ ''\<newline>''
       @ ''    Request write:          0.05ms\<newline>''
       @ ''    Response delay:       480.97ms\<newline>''
       @ ''    Response read:         22.93ms\<newline>''
       @ ''\<newline>''
       @ ''  Request total:          828.99ms\<newline>''"

section \<open>Properties of Execute and the accessors\<close>

lemma New_simps [simp]:
  "timings (New c r) = zeroTimings" "client (New c r) = c" "request (New c r) = r"
  "response (New c r) = None" "responseBody (New c r) = []"
  by (simp_all add: New_def)

lemma Do_exampleClient [simp]: "Do (exampleClient evs res) r = (evs, res)"
  by (simp add: exampleClient_def)

text \<open>The two ways in which \<^verbatim>\<open>Execute\<close> ends.\<close>

lemma Execute_error:
  assumes "Do (client t) (derivedRequest (request t)) = (evs, Inl err)"
  shows "Execute a b se t =
           (Some (Errorf_w ''error sending request: '' err),
            t\<lparr>request := derivedRequest (request t), timings := foldl hook (timings t) evs\<rparr>,
            se)"
  using assms by (simp add: Execute_def derivedRequest_def Let_def)

lemma Execute_response:
  assumes "Do (client t) (derivedRequest (request t)) = (evs, Inr res)"
  shows "Execute a b se t =
           (None,
            t\<lparr>request := derivedRequest (request t),
              timings := finish a b (foldl hook (timings t) evs),
              response := Some (res\<lparr>RespBody := Close (RespBody res)\<rparr>),
              responseBody := (case readErr (RespBody res) of
                                 None \<Rightarrow> bytes (RespBody res)
                               | Some e \<Rightarrow> ''Error reading response body: '' @ Error e)\<rparr>,
            (case readErr (RespBody res) of
               None \<Rightarrow> se
             | Some e \<Rightarrow> se @ ''Error reading response body: '' @ Error e @ ''\<newline>''))"
  using assms
  by (simp add: Execute_def derivedRequest_def finish_def ReadAll_def Let_def split: option.splits)

text \<open>
  C5.  When the client reports an error, \<^verbatim>\<open>Execute\<close> returns an error that wraps
  it, with the message \<^verbatim>\<open>error sending request: \<close> followed by the client's message,
  and the tracer holds no response and no body.  When the client returns a response,
  whatever its status code (404 for one), \<^verbatim>\<open>Execute\<close> returns nil and the tracer
  holds that response.
\<close>

theorem Execute_client_error:
  assumes "Do c (derivedRequest r) = (evs, Inl err)"
      and "Do c' (derivedRequest r') = (evs', Inr res)"
  shows "(case Execute a b se (New c r) of (e, t, se') \<Rightarrow>
            e = Some (wrapError (''error sending request: '' @ Error err) err)
            \<and> map_option Error e = Some (''error sending request: '' @ Error err)
            \<and> map_option Unwrap e = Some (Some err)
            \<and> response t = None \<and> responseBody t = [])
         \<and> (case Execute a' b' se (New c' r') of (e, t, se') \<Rightarrow>
            e = None \<and> response t = Some (res\<lparr>RespBody := Close (RespBody res)\<rparr>))"
  using assms by (simp add: Execute_error Execute_response Errorf_w_def)

theorem Execute_client_error_witness:
  "Do (exampleClient timeoutEvents (Inl timeoutError)) (derivedRequest exampleRequest)
     = (timeoutEvents, Inl timeoutError)
   \<and> Do (exampleClient reusedEvents (Inr notFoundResponse)) (derivedRequest exampleRequest)
     = (reusedEvents, Inr notFoundResponse)
   \<and> StatusCode notFoundResponse = 404
   \<and> (case Execute 0 14 [] (New (exampleClient timeoutEvents (Inl timeoutError)) exampleRequest) of
        (e, t, se') \<Rightarrow>
          e = Some (wrapError ''error sending request: context deadline exceeded'' timeoutError)
          \<and> response t = None \<and> responseBody t = [])
   \<and> (case Execute 0 9 [] (New (exampleClient reusedEvents (Inr notFoundResponse)) exampleRequest) of
        (e, t, se') \<Rightarrow>
          e = None \<and> map_option StatusCode (response t) = Some 404)"
  using Execute_client_error
    [of "exampleClient timeoutEvents (Inl timeoutError)" exampleRequest timeoutEvents timeoutError
        "exampleClient reusedEvents (Inr notFoundResponse)" exampleRequest reusedEvents
        notFoundResponse 0 14 "[]" 0 9]
  by (simp add: timeoutError_def notFoundResponse_def split: prod.splits)

text \<open>\<^verbatim>\<open>SetHeaders\<close> touches nothing but the header map of the request.\<close>

lemma SetHeaders_frame:
  "timings (snd (SetHeaders raw t)) = timings t
   \<and> client (snd (SetHeaders raw t)) = client t
   \<and> response (snd (SetHeaders raw t)) = response t
   \<and> responseBody (snd (SetHeaders raw t)) = responseBody t
   \<and> Method (request (snd (SetHeaders raw t))) = Method (request t)
   \<and> URL (request (snd (SetHeaders raw t))) = URL (request t)
   \<and> Proto (request (snd (SetHeaders raw t))) = Proto (request t)
   \<and> Body (request (snd (SetHeaders raw t))) = Body (request t)
   \<and> ctx (request (snd (SetHeaders raw t))) = ctx (request t)"
proof (induction raw arbitrary: t)
  case Nil
  show ?case by simp
next
  case (Cons full raw)
  show ?case
    by (simp add: Let_def Cons.IH split: sum.splits)
qed

text \<open>
  C4.  When the client returns a response whose body cannot be read, \<^verbatim>\<open>Execute\<close>
  still returns nil; the body it exposes is the text
  \<^verbatim>\<open>Error reading response body: \<close> followed by the message of the read error, and the
  same text with a line break is appended to the diagnostic stream.  The response is
  the one the client returned, and the timing record, the status and the headers are
  those of the same exchange with a body that reads without error (which writes
  nothing to the diagnostic stream).
\<close>

theorem Execute_body_read_error:
  assumes "Do c (derivedRequest r) = (evs, Inr res)"
      and "readErr (RespBody res) = Some err"
      and "Do c' (derivedRequest r) =
             (evs, Inr (res\<lparr>RespBody := (RespBody res)\<lparr>readErr := None\<rparr>\<rparr>))"
  shows "case Execute a b se (New c r) of (e, t, se') \<Rightarrow>
           e = None
           \<and> responseBody t = ''Error reading response body: '' @ Error err
           \<and> se' = se @ ''Error reading response body: '' @ Error err @ ''\<newline>''
           \<and> response t = Some (res\<lparr>RespBody := Close (RespBody res)\<rparr>)
           \<and> (case Execute a b se (New c' r) of (e0, t0, se0) \<Rightarrow>
                 e0 = None \<and> se0 = se
                 \<and> responseBody t0 = bytes (RespBody res)
                 \<and> timings t = timings t0
                 \<and> map_option Status (response t) = map_option Status (response t0)
                 \<and> map_option StatusCode (response t) = map_option StatusCode (response t0)
                 \<and> map_option RespHeader (response t) = map_option RespHeader (response t0))"
  using assms by (simp add: Execute_response)

theorem Execute_body_read_error_witness:
  "Do (exampleClient freshEvents (Inr brokenBodyResponse)) (derivedRequest exampleRequest)
     = (freshEvents, Inr brokenBodyResponse)
   \<and> readErr (RespBody brokenBodyResponse) = Some (errorString ''unexpected EOF'')
   \<and> (case Execute 0 95 [] (New (exampleClient freshEvents (Inr brokenBodyResponse)) exampleRequest) of
        (e, t, se') \<Rightarrow>
          e = None
          \<and> responseBody t = ''Error reading response body: unexpected EOF''
          \<and> se' = ''Error reading response body: unexpected EOF\<newline>''
          \<and> map_option Status (response t) = Some ''200 OK''
          \<and> TotalRequestDuration (timings t) = 95)"
  using Execute_body_read_error
    [where c = "exampleClient freshEvents (Inr brokenBodyResponse)" and r = exampleRequest
       and evs = freshEvents and res = brokenBodyResponse and err = "errorString ''unexpected EOF''"
       and c' = "exampleClient freshEvents
           (Inr (brokenBodyResponse\<lparr>RespBody := (RespBody brokenBodyResponse)\<lparr>readErr := None\<rparr>\<rparr>))"
       and a = 0 and b = 95 and se = "[]"]
  by (simp add: brokenBodyResponse_def exampleResponse_def Execute_response finish_def
           split: prod.splits)

text \<open>Observers of a reused connection leave the four connection durations alone.\<close>

lemma hook_reused:
  assumes "reusedConnection ev"
  shows "TotalConnectionDuration (hook tm ev) = TotalConnectionDuration tm
         \<and> DNSDuration (hook tm ev) = DNSDuration tm
         \<and> ConnectionDialDuration (hook tm ev) = ConnectionDialDuration tm
         \<and> TLSDuration (hook tm ev) = TLSDuration tm"
  using assms by (cases ev) simp_all

lemma foldl_hook_reused:
  assumes "list_all reusedConnection evs"
  shows "TotalConnectionDuration (foldl hook tm evs) = TotalConnectionDuration tm
         \<and> DNSDuration (foldl hook tm evs) = DNSDuration tm
         \<and> ConnectionDialDuration (foldl hook tm evs) = ConnectionDialDuration tm
         \<and> TLSDuration (foldl hook tm evs) = TLSDuration tm"
  using assms
proof (induction evs arbitrary: tm)
  case Nil
  show ?case by simp
next
  case (Cons ev evs)
  then have "reusedConnection ev" and "list_all reusedConnection evs"
    by simp_all
  then show ?case
    using Cons.IH [of "hook tm ev"] hook_reused [of ev tm] by simp
qed

text \<open>
  C6.  In an exchange whose connection comes from the pool (no observer of the DNS
  lookup, of the dial or of the TLS handshake fires, and every acquired connection is
  reported as reused), the total connection-setup duration and the DNS, dial and TLS
  durations of the timing record are all zero after \<^verbatim>\<open>Execute\<close>, whether the
  exchange succeeds or not.
\<close>

theorem Execute_reused_connection:
  assumes "Do c (derivedRequest r) = (evs, res)"
      and "list_all reusedConnection evs"
  shows "case Execute a b se (New c r) of (e, t, se') \<Rightarrow>
           TotalConnectionDuration (timings t) = 0
           \<and> DNSDuration (timings t) = 0
           \<and> ConnectionDialDuration (timings t) = 0
           \<and> TLSDuration (timings t) = 0"
proof (cases res)
  case (Inl err)
  then show ?thesis
    using assms foldl_hook_reused [of evs zeroTimings]
    by (simp add: Execute_error zeroTimings_def)
next
  case (Inr resp)
  then show ?thesis
    using assms foldl_hook_reused [of evs zeroTimings]
    by (simp add: Execute_response finish_def zeroTimings_def)
qed

theorem Execute_reused_connection_witness:
  "Do (exampleClient reusedEvents (Inr exampleResponse)) (derivedRequest exampleRequest)
     = (reusedEvents, Inr exampleResponse)
   \<and> list_all reusedConnection reusedEvents
   \<and> (case Execute 0 9 [] (New (exampleClient reusedEvents (Inr exampleResponse)) exampleRequest) of
        (e, t, se') \<Rightarrow>
          e = None
          \<and> TotalConnectionDuration (timings t) = 0
          \<and> DNSDuration (timings t) = 0
          \<and> ConnectionDialDuration (timings t) = 0
          \<and> TLSDuration (timings t) = 0
          \<and> RequestWriteDuration (timings t) = 1
          \<and> ResponseDelayDuration (timings t) = 5
          \<and> ResponseReadDuration (timings t) = 1
          \<and> TotalRequestDuration (timings t) = 9)"
  using Execute_reused_connection
    [where c = "exampleClient reusedEvents (Inr exampleResponse)" and r = exampleRequest
       and evs = reusedEvents and res = "Inr exampleResponse" and a = 0 and b = 9 and se = "[]"]
  by (simp add: reusedEvents_def Execute_response finish_def zeroTimings_def split: prod.splits)

text \<open>
  C2, as the code has it.  On a tracer that \<^verbatim>\<open>New\<close> made and \<^verbatim>\<open>SetHeaders\<close> may
  have been applied to, \<^verbatim>\<open>GetResponse\<close> returns nil, \<^verbatim>\<open>GetResponseBody\<close> the
  empty string and \<^verbatim>\<open>GetTimings\<close> the zero record.  After an \<^verbatim>\<open>Execute\<close> that
  returned an error, \<^verbatim>\<open>GetResponse\<close> and \<^verbatim>\<open>GetResponseBody\<close> still return nil
  and the empty string, and \<^verbatim>\<open>GetTimings\<close> returns the record with everything the
  observers wrote before the failure: nothing is discarded.  No accessor changes the
  tracer.
\<close>

theorem accessors_before_completion:
  assumes "t0 = snd (SetHeaders raw (New c r))"
      and "Do c (derivedRequest (request t0)) = (evs, Inl err)"
  shows "fst (GetResponse t0) = None
         \<and> fst (GetResponseBody t0) = []
         \<and> fst (GetTimings t0) = zeroTimings
         \<and> (case Execute a b se t0 of (e, t, se') \<Rightarrow>
               e \<noteq> None
               \<and> fst (GetResponse t) = None
               \<and> fst (GetResponseBody t) = []
               \<and> fst (GetTimings t) = foldl hook zeroTimings evs)
         \<and> snd (GetResponse t') = t'
         \<and> snd (GetResponseBody t') = t'
         \<and> snd (GetTimings t') = t'"
proof -
  have frame: "timings t0 = zeroTimings" "client t0 = c" "response t0 = None"
       "responseBody t0 = []"
    using assms(1) SetHeaders_frame [of raw "New c r"] by simp_all
  then have "Do (client t0) (derivedRequest (request t0)) = (evs, Inl err)"
    using assms(2) by simp
  then show ?thesis
    using frame
    by (simp add: Execute_error GetResponse_def GetResponseBody_def GetTimings_def)
qed

theorem accessors_before_completion_witness:
  "Do (exampleClient timeoutEvents (Inl timeoutError))
      (derivedRequest (request (snd (SetHeaders [''X-One: hello'']
         (New (exampleClient timeoutEvents (Inl timeoutError)) exampleRequest)))))
     = (timeoutEvents, Inl timeoutError)
   \<and> (case Execute 0 14 []
           (snd (SetHeaders [''X-One: hello'']
              (New (exampleClient timeoutEvents (Inl timeoutError)) exampleRequest))) of
        (e, t, se') \<Rightarrow>
          e \<noteq> None
          \<and> fst (GetResponse t) = None
          \<and> fst (GetResponseBody t) = []
          \<and> fst (GetTimings t) = zeroTimings\<lparr>getConnStart := 1, dnsStart := 2, DNSDuration := 10,
                                     connectStart := 13\<rparr>)"
  using accessors_before_completion
    [where c = "exampleClient timeoutEvents (Inl timeoutError)" and r = exampleRequest
       and raw = "[''X-One: hello'']" and evs = timeoutEvents and err = timeoutError
       and a = 0 and b = 14 and se = "[]", OF refl]
  by (simp add: timeoutEvents_def zeroTimings_def split: prod.splits)

theorem GetTimings_after_failure_counterexample:
  "case Execute 0 14 [] (New (exampleClient timeoutEvents (Inl timeoutError)) exampleRequest) of
     (e, t, se') \<Rightarrow>
       e = Some (Errorf_w ''error sending request: '' timeoutError)
       \<and> fst (GetTimings t) \<noteq> zeroTimings
       \<and> DNSDuration (fst (GetTimings t)) = 10
       \<and> dnsStart (fst (GetTimings t)) = 2"
proof -
  have "Do (client (New (exampleClient timeoutEvents (Inl timeoutError)) exampleRequest))
          (derivedRequest (request (New (exampleClient timeoutEvents (Inl timeoutError))
             exampleRequest)))
        = (timeoutEvents, Inl timeoutError)"
    by simp
  from Execute_error [OF this] show ?thesis
    by (simp add: GetTimings_def timeoutEvents_def zeroTimings_def)
qed


section \<open>Properties of SetHeaders\<close>

lemma IndexByte_None: "IndexByte s c = None \<longleftrightarrow> c \<notin> set s"
  by (induction s) auto

lemma IndexByte_first:
  assumes "c \<notin> set n"
  shows "IndexByte (n @ c # v) c = Some (length n)"
  using assms by (induction n) auto

lemma SplitN_2:
  "SplitN s sep 2 =
     (case IndexByte s sep of None \<Rightarrow> [s] | Some m \<Rightarrow> [take m s, drop (m + 1) s])"
  by (simp add: numeral_2_eq_2 split: option.splits)

lemma SplitN_no_separator:
  assumes "sep \<notin> set s"
  shows "SplitN s sep 2 = [s]"
  using assms by (simp add: SplitN_2 IndexByte_None [THEN iffD2])

lemma SplitN_first_separator:
  assumes "sep \<notin> set n"
  shows "SplitN (n @ sep # v) sep 2 = [n, v]"
  using assms by (simp add: SplitN_2 IndexByte_first)

lemma first_colon:
  assumes "c \<in> set s"
  shows "\<exists>n v. s = n @ c # v \<and> c \<notin> set n"
  using assms by (metis split_list_first)

text \<open>One turn of the loop of \<^verbatim>\<open>SetHeaders\<close>, without and with a colon.\<close>

lemma SetHeaders_no_colon:
  assumes "CHR '':'' \<notin> set full"
  shows "SetHeaders (full # raw) t = (Some (IndexOutOfRange 1 1), t)"
  using assms by (simp add: SplitN_no_separator index_def)

lemma SetHeaders_colon:
  assumes "CHR '':'' \<notin> set n"
  shows "SetHeaders ((n @ CHR '':'' # v) # raw) t =
           SetHeaders raw
             (t\<lparr>request := (request t)\<lparr>Header :=
                (Header (request t))(CanonicalMIMEHeaderKey (TrimSpace n) \<mapsto> [TrimSpace v])\<rparr>\<rparr>)"
  using assms by (simp add: SplitN_first_separator index_def Header_Set_def)

lemma SetHeaders_panic:
  "fst (SetHeaders raw t) =
     (if list_all (\<lambda>full. CHR '':'' \<in> set full) raw then None else Some (IndexOutOfRange 1 1))"
proof (induction raw arbitrary: t)
  case Nil
  show ?case by simp
next
  case (Cons full raw)
  show ?case
  proof (cases "CHR '':'' \<in> set full")
    case True
    from first_colon [OF True]
    obtain n v where full: "full = n @ CHR '':'' # v" and n: "CHR '':'' \<notin> set n"
      by (elim exE conjE)
    have "fst (SetHeaders (full # raw) t) =
            (if list_all (\<lambda>full. CHR '':'' \<in> set full) raw then None
             else Some (IndexOutOfRange 1 1))"
      unfolding full SetHeaders_colon [OF n] by (rule Cons.IH)
    with True show ?thesis
      by (simp del: SetHeaders.simps)
  next
    case False
    have "fst (SetHeaders (full # raw) t) = Some (IndexOutOfRange 1 1)"
      unfolding SetHeaders_no_colon [OF False] by (rule fst_conv)
    with False show ?thesis
      by (simp del: SetHeaders.simps)
  qed
qed

text \<open>
  C3.  \<^verbatim>\<open>SetHeaders\<close> returns without a panic exactly when every entry of the raw
  list contains a colon; otherwise, that is exactly when some entry contains none,
  it panics with index 1 out of range for the one-element result of the split.
\<close>

theorem SetHeaders_out_of_range:
  "(fst (SetHeaders raw t) = None \<longleftrightarrow> (\<forall>full\<in>set raw. CHR '':'' \<in> set full))
   \<and> (fst (SetHeaders raw t) = Some (IndexOutOfRange 1 1)
        \<longleftrightarrow> (\<exists>full\<in>set raw. CHR '':'' \<notin> set full))"
  by (simp add: SetHeaders_panic list_all_iff)

theorem SetHeaders_out_of_range_witness:
  "list_all (\<lambda>full. CHR '':'' \<in> set full) [''X-One: hello'', ''X-Two: one two three'']
   \<and> fst (SetHeaders [''X-One: hello'', ''X-Two: one two three''] (New (exampleClient [] (Inl timeoutError)) exampleRequest)) = None
   \<and> list_ex (\<lambda>full. CHR '':'' \<notin> set full) [''X-One: hello'', ''X-Two'']
   \<and> fst (SetHeaders [''X-One: hello'', ''X-Two''] (New (exampleClient [] (Inl timeoutError)) exampleRequest))
        = Some (IndexOutOfRange 1 1)"
  using SetHeaders_out_of_range [of "[''X-One: hello'', ''X-Two: one two three'']" "New (exampleClient [] (Inl timeoutError)) exampleRequest"]
    SetHeaders_out_of_range [of "[''X-One: hello'', ''X-Two'']" "New (exampleClient [] (Inl timeoutError)) exampleRequest"]
  by simp

text \<open>
  What \<^verbatim>\<open>TrimSpace\<close> removes and what it leaves: the string is the result
  between two runs of white-space runes, and the result neither starts nor ends with
  a white-space rune.
\<close>

lemma trimLeftRunes_None:
  assumes "find (\<lambda>w. w \<noteq> [] \<and> prefix w s) ws = None"
  shows "trimLeftRunes ws s = s"
  using assms by (subst trimLeftRunes.simps) simp

lemma trimLeftRunes_Some:
  assumes "find (\<lambda>w. w \<noteq> [] \<and> prefix w s) ws = Some w"
  shows "trimLeftRunes ws s = trimLeftRunes ws (drop (length w) s)"
  using assms by (subst trimLeftRunes.simps) simp

lemma trimLeftRunes_decomp:
  "\<exists>ls. set ls \<subseteq> set ws \<and> s = concat ls @ trimLeftRunes ws s"
proof (induction ws s rule: trimLeftRunes.induct)
  case (1 ws s)
  show ?case
  proof (cases "find (\<lambda>w. w \<noteq> [] \<and> prefix w s) ws")
    case None
    then have "set [] \<subseteq> set ws \<and> s = concat [] @ trimLeftRunes ws s"
      by (simp add: trimLeftRunes_None)
    then show ?thesis by blast
  next
    case (Some w)
    then have w: "w \<in> set ws" "prefix w s"
      by (auto simp: find_Some_iff)
    from "1.IH" [OF Some] obtain ls where
      ls: "set ls \<subseteq> set ws"
          "drop (length w) s = concat ls @ trimLeftRunes ws (drop (length w) s)"
      by blast
    from w(2) have "s = w @ drop (length w) s"
      by (auto simp: prefix_def)
    with ls(2) have "s = concat (w # ls) @ trimLeftRunes ws s"
      by (simp add: trimLeftRunes_Some [OF Some])
    moreover have "set (w # ls) \<subseteq> set ws"
      using w(1) ls(1) by simp
    ultimately show ?thesis by blast
  qed
qed

lemma trimLeftRunes_no_prefix:
  assumes "w \<in> set ws" and "w \<noteq> []"
  shows "\<not> prefix w (trimLeftRunes ws s)"
  using assms
proof (induction ws s rule: trimLeftRunes.induct)
  case (1 ws s)
  show ?case
  proof (cases "find (\<lambda>w. w \<noteq> [] \<and> prefix w s) ws")
    case None
    then have "\<not> prefix w s"
      using "1.prems" by (auto simp: find_None_iff)
    then show ?thesis
      by (simp add: trimLeftRunes_None [OF None])
  next
    case (Some u)
    from "1.IH" [OF Some "1.prems"] show ?thesis
      by (simp add: trimLeftRunes_Some [OF Some])
  qed
qed

lemma trimRightRunes_decomp:
  "\<exists>rs. set rs \<subseteq> set ws \<and> s = trimRightRunes ws s @ concat rs"
proof -
  obtain ls where ls: "set ls \<subseteq> set (map rev ws)"
      "rev s = concat ls @ trimLeftRunes (map rev ws) (rev s)"
    using trimLeftRunes_decomp [of "map rev ws" "rev s"] by blast
  from ls(2) have "rev (rev s) = rev (concat ls @ trimLeftRunes (map rev ws) (rev s))"
    by simp
  then have "s = trimRightRunes ws s @ concat (map rev (rev ls))"
    by (simp add: trimRightRunes_def rev_concat)
  moreover have "set (map rev (rev ls)) \<subseteq> set ws"
    using ls(1) by auto
  ultimately show ?thesis by blast
qed

lemma trimRightRunes_no_suffix:
  assumes "w \<in> set ws" and "w \<noteq> []"
  shows "\<not> suffix w (trimRightRunes ws s)"
  using assms trimLeftRunes_no_prefix [of "rev w" "map rev ws" "rev s"]
  by (simp add: trimRightRunes_def suffix_to_prefix)

lemma trimRightRunes_prefix: "prefix (trimRightRunes ws s) s"
  using trimRightRunes_decomp [of ws s] by (metis prefixI)

lemma TrimSpace_decomp:
  "\<exists>ls rs. set ls \<subseteq> set spaceRunes \<and> set rs \<subseteq> set spaceRunes
           \<and> s = concat ls @ TrimSpace s @ concat rs"
proof -
  obtain ls where ls: "set ls \<subseteq> set spaceRunes"
      "s = concat ls @ trimLeftRunes spaceRunes s"
    using trimLeftRunes_decomp by blast
  obtain rs where rs: "set rs \<subseteq> set spaceRunes"
      "trimLeftRunes spaceRunes s = TrimSpace s @ concat rs"
    using trimRightRunes_decomp [of spaceRunes "trimLeftRunes spaceRunes s"]
    by (auto simp: TrimSpace_def)
  from ls(2) rs(2) have "s = concat ls @ TrimSpace s @ concat rs"
    by simp
  with ls(1) rs(1) show ?thesis by blast
qed

lemma TrimSpace_trimmed:
  assumes "w \<in> set spaceRunes"
  shows "\<not> prefix w (TrimSpace s) \<and> \<not> suffix w (TrimSpace s)"
proof -
  have ne: "w \<noteq> []"
    using assms by (auto simp: spaceRunes_def)
  have "\<not> prefix w (trimLeftRunes spaceRunes s)"
    by (rule trimLeftRunes_no_prefix [OF assms ne])
  moreover have "prefix (TrimSpace s) (trimLeftRunes spaceRunes s)"
    by (simp add: TrimSpace_def trimRightRunes_prefix)
  ultimately have "\<not> prefix w (TrimSpace s)"
    using prefix_order.trans by blast
  moreover have "\<not> suffix w (TrimSpace s)"
    unfolding TrimSpace_def by (rule trimRightRunes_no_suffix [OF assms ne])
  ultimately show ?thesis by simp
qed

lemma SetHeaders_foldl:
  assumes "\<forall>nv\<in>set nvs. CHR '':'' \<notin> set (fst nv)"
  shows "SetHeaders (map (\<lambda>nv. fst nv @ CHR '':'' # snd nv) nvs) t =
           (None, t\<lparr>request := (request t)\<lparr>Header := foldl setHeader (Header (request t)) nvs\<rparr>\<rparr>)"
  using assms
proof (induction nvs arbitrary: t)
  case Nil
  show ?case by simp
next
  case (Cons nv nvs)
  then have n: "CHR '':'' \<notin> set (fst nv)" and rest: "\<forall>nv\<in>set nvs. CHR '':'' \<notin> set (fst nv)"
    by simp_all
  show ?case
    by (simp add: SetHeaders_colon [OF n] Cons.IH [OF rest] setHeader_def del: SetHeaders.simps)
qed

lemma foldl_setHeader_other:
  assumes "\<forall>nv\<in>set nvs. CanonicalMIMEHeaderKey (TrimSpace (fst nv)) \<noteq> k"
  shows "foldl setHeader h nvs k = h k"
  using assms by (induction nvs arbitrary: h) (auto simp: setHeader_def)

lemma foldl_setHeader_last:
  assumes "\<forall>nv\<in>set post. CanonicalMIMEHeaderKey (TrimSpace (fst nv))
             \<noteq> CanonicalMIMEHeaderKey (TrimSpace n)"
  shows "foldl setHeader h (pre @ (n, v) # post) (CanonicalMIMEHeaderKey (TrimSpace n))
           = Some [TrimSpace v]"
  using foldl_setHeader_other [OF assms] by (simp add: setHeader_def)

lemma TrimSpace_examples:
  "TrimSpace ''X-Hello'' = ''X-Hello''" "TrimSpace '' hi'' = ''hi''"
  "TrimSpace ''x-hello '' = ''x-hello''" "TrimSpace ''  there '' = ''there''"
  by code_simp+

lemma CanonicalMIMEHeaderKey_examples:
  "CanonicalMIMEHeaderKey ''X-Hello'' = ''X-Hello''"
  "CanonicalMIMEHeaderKey ''x-hello'' = ''X-Hello''"
  by code_simp+

text \<open>
  C7.  Let every raw entry be a name without a colon, a colon and a value.
  \<^verbatim>\<open>SetHeaders\<close> then returns without a panic, and the header map of the request
  is the old one with, for each entry in turn, the trimmed name (in canonical form)
  mapped to the trimmed value alone.  So the value of an entry that no later entry
  with the same trimmed name follows is the only value of its header: a later entry
  replaces an earlier one.  Trimming removes a run of white-space runes at each end
  and leaves no white-space rune at either end.  For the one entry
  \<^verbatim>\<open>X-Hello: hi\<close> the header \<^verbatim>\<open>X-Hello\<close> is \<^verbatim>\<open>hi\<close>.
\<close>

theorem SetHeaders_sets_headers:
  assumes "\<forall>nv\<in>set nvs. CHR '':'' \<notin> set (fst nv)"
  shows "SetHeaders (map (\<lambda>nv. fst nv @ CHR '':'' # snd nv) nvs) t =
           (None, t\<lparr>request := (request t)\<lparr>Header := foldl setHeader (Header (request t)) nvs\<rparr>\<rparr>)
         \<and> (\<forall>pre n v post.
               nvs = pre @ (n, v) # post
               \<and> (\<forall>nv\<in>set post. CanonicalMIMEHeaderKey (TrimSpace (fst nv))
                     \<noteq> CanonicalMIMEHeaderKey (TrimSpace n))
               \<longrightarrow> Header (request (snd (SetHeaders (map (\<lambda>nv. fst nv @ CHR '':'' # snd nv) nvs) t)))
                     (CanonicalMIMEHeaderKey (TrimSpace n)) = Some [TrimSpace v])
         \<and> (\<exists>ls rs. set ls \<subseteq> set spaceRunes \<and> set rs \<subseteq> set spaceRunes
               \<and> s = concat ls @ TrimSpace s @ concat rs)
         \<and> (\<forall>w\<in>set spaceRunes. \<not> prefix w (TrimSpace s) \<and> \<not> suffix w (TrimSpace s))
         \<and> Header (request (snd (SetHeaders [''X-Hello: hi''] t))) ''X-Hello'' = Some [''hi'']"
proof -
  have 1: "SetHeaders (map (\<lambda>nv. fst nv @ CHR '':'' # snd nv) nvs) t =
           (None, t\<lparr>request := (request t)\<lparr>Header := foldl setHeader (Header (request t)) nvs\<rparr>\<rparr>)"
    by (rule SetHeaders_foldl [OF assms])
  have 2: "Header (request (snd (SetHeaders (map (\<lambda>nv. fst nv @ CHR '':'' # snd nv) nvs) t)))
             (CanonicalMIMEHeaderKey (TrimSpace n)) = Some [TrimSpace v]"
    if "nvs = pre @ (n, v) # post"
       "\<forall>nv\<in>set post. CanonicalMIMEHeaderKey (TrimSpace (fst nv))
            \<noteq> CanonicalMIMEHeaderKey (TrimSpace n)"
    for pre n v post
  proof -
    have "Header (request (snd (SetHeaders (map (\<lambda>nv. fst nv @ CHR '':'' # snd nv) nvs) t)))
            (CanonicalMIMEHeaderKey (TrimSpace n))
          = foldl setHeader (Header (request t)) nvs (CanonicalMIMEHeaderKey (TrimSpace n))"
      by (simp add: 1)
    also have "\<dots> = Some [TrimSpace v]"
      unfolding that(1) by (rule foldl_setHeader_last [OF that(2)])
    finally show ?thesis .
  qed
  have "CHR '':'' \<notin> set ''X-Hello''"
    by simp
  from SetHeaders_colon [OF this, of "'' hi''" "[]" t]
  have 5: "Header (request (snd (SetHeaders [''X-Hello: hi''] t))) ''X-Hello'' = Some [''hi'']"
    by (simp add: TrimSpace_examples CanonicalMIMEHeaderKey_examples del: SetHeaders.simps(2))
  show ?thesis
    using 1 2 TrimSpace_decomp [of s] TrimSpace_trimmed [of _ s] 5 by blast
qed

theorem SetHeaders_sets_headers_witness:
  "list_all (\<lambda>nv. CHR '':'' \<notin> set (fst nv)) [(''X-Hello'', '' hi''), (''x-hello '', ''  there '')]
   \<and> SetHeaders [''X-Hello: hi'', ''x-hello :  there '']
        (New (exampleClient [] (Inl timeoutError)) exampleRequest)
      = (None, New (exampleClient [] (Inl timeoutError))
                 (exampleRequest\<lparr>Header := [''X-Hello'' \<mapsto> [''there'']]\<rparr>))
   \<and> Header (request (snd (SetHeaders [''X-Hello: hi'', ''x-hello :  there '']
        (New (exampleClient [] (Inl timeoutError)) exampleRequest)))) ''X-Hello'' = Some [''there'']"
  using SetHeaders_sets_headers
    [where nvs = "[(''X-Hello'', '' hi''), (''x-hello '', ''  there '')]"
       and t = "New (exampleClient [] (Inl timeoutError)) exampleRequest" and s = "[]"]
  by (simp add: setHeader_def TrimSpace_examples CanonicalMIMEHeaderKey_examples New_def
        exampleRequest_def)

section \<open>The timing invariant\<close>

text \<open>
  C1, as the code has it.  Take a successful exchange of one round trip whose
  observers fire once each in the order of the connection's life: the start of the
  connection acquisition; for a fresh connection the DNS lookup (if any), the dial
  and the TLS handshake (if any), for a pooled one nothing; the acquired connection;
  the written request; the first response byte; with clock readings that never
  decrease.  Then the DNS, dial and TLS durations add up to at most the total
  connection-setup duration, and the total request duration exceeds the sum of the
  connection-setup, write, delay and read durations by exactly the time that the
  record does not attribute to a phase: the time from the start of \<^verbatim>\<open>Execute\<close> to
  the start of the connection acquisition (for a pooled connection, to the start of
  the request write) and the time between the two clock readings inside each of the
  observers that take two.
\<close>

theorem Execute_timing_invariant:
  assumes "Do c (derivedRequest r) = (evs, Inr res)"
      and "evs = GetConn g # conn
                 @ [GotConn reused k k', WroteRequest w w', GotFirstResponseByte f f']"
      and "if reused then conn = []
           else conn = dns @ [ConnectStart cS, ConnectDone cD] @ tls"
      and "dns = [] \<or> dns = [DNSStart dS, DNSDone dD]"
      and "tls = [] \<or> tls = [TLSHandshakeStart tS, TLSHandshakeDone tD]"
      and "a \<le> g \<and> g \<le> dS \<and> dS \<le> dD \<and> dD \<le> cS \<and> cS \<le> cD \<and> cD \<le> tS \<and> tS \<le> tD
           \<and> tD \<le> k \<and> k \<le> k' \<and> k' \<le> w \<and> w \<le> w' \<and> w' \<le> f \<and> f \<le> f' \<and> f' \<le> b"
  shows "case Execute a b se (New c r) of (e, t, se') \<Rightarrow>
           e = None
           \<and> DNSDuration (timings t) + ConnectionDialDuration (timings t) + TLSDuration (timings t)
               \<le> TotalConnectionDuration (timings t)
           \<and> TotalRequestDuration (timings t)
               - (TotalConnectionDuration (timings t) + RequestWriteDuration (timings t)
                  + ResponseDelayDuration (timings t) + ResponseReadDuration (timings t))
               = (if reused then k' - a else (g - a) + (k' - k)) + (w' - w) + (f' - f)
           \<and> 0 \<le> (if reused then k' - a else (g - a) + (k' - k)) + (w' - w) + (f' - f)"
proof (cases reused)
  case True
  then have "evs = [GetConn g, GotConn True k k', WroteRequest w w', GotFirstResponseByte f f']"
    using assms(2,3) by simp
  then show ?thesis
    using assms(1,6) True by (simp add: Execute_response finish_def zeroTimings_def)
next
  case False
  then have evs: "evs = GetConn g # dns @ [ConnectStart cS, ConnectDone cD] @ tls
                   @ [GotConn False k k', WroteRequest w w', GotFirstResponseByte f f']"
    using assms(2,3) by simp
  from assms(4,5) consider
      "dns = []" "tls = []"
    | "dns = []" "tls = [TLSHandshakeStart tS, TLSHandshakeDone tD]"
    | "dns = [DNSStart dS, DNSDone dD]" "tls = []"
    | "dns = [DNSStart dS, DNSDone dD]" "tls = [TLSHandshakeStart tS, TLSHandshakeDone tD]"
    by (elim disjE) simp_all
  then show ?thesis
  proof cases
    case 1
    then show ?thesis
      using assms(1,6) evs False by (simp add: Execute_response finish_def zeroTimings_def)
  next
    case 2
    then show ?thesis
      using assms(1,6) evs False by (simp add: Execute_response finish_def zeroTimings_def)
  next
    case 3
    then show ?thesis
      using assms(1,6) evs False by (simp add: Execute_response finish_def zeroTimings_def)
  next
    case 4
    then show ?thesis
      using assms(1,6) evs False by (simp add: Execute_response finish_def zeroTimings_def)
  qed
qed

theorem Execute_timing_invariant_witness:
  "Do (exampleClient freshEvents (Inr exampleResponse)) (derivedRequest exampleRequest)
     = (freshEvents, Inr exampleResponse)
   \<and> freshEvents = GetConn 1 # ([DNSStart 2, DNSDone 12] @ [ConnectStart 12, ConnectDone 22]
        @ [TLSHandshakeStart 22, TLSHandshakeDone 52])
        @ [GotConn False 53 53, WroteRequest 54 54, GotFirstResponseByte 90 90]
   \<and> (case Execute 0 95 [] (New (exampleClient freshEvents (Inr exampleResponse)) exampleRequest) of
        (e, t, se') \<Rightarrow>
          e = None
          \<and> DNSDuration (timings t) = 10 \<and> ConnectionDialDuration (timings t) = 10
          \<and> TLSDuration (timings t) = 30 \<and> TotalConnectionDuration (timings t) = 52
          \<and> RequestWriteDuration (timings t) = 1 \<and> ResponseDelayDuration (timings t) = 36
          \<and> ResponseReadDuration (timings t) = 5 \<and> TotalRequestDuration (timings t) = 95
          \<and> DNSDuration (timings t) + ConnectionDialDuration (timings t) + TLSDuration (timings t)
              \<le> TotalConnectionDuration (timings t)
          \<and> TotalRequestDuration (timings t)
              - (TotalConnectionDuration (timings t) + RequestWriteDuration (timings t)
                 + ResponseDelayDuration (timings t) + ResponseReadDuration (timings t)) = 1)"
  using Execute_timing_invariant
    [where c = "exampleClient freshEvents (Inr exampleResponse)" and r = exampleRequest
       and evs = freshEvents and res = exampleResponse and g = 1 and reused = False
       and conn = "[DNSStart 2, DNSDone 12] @ [ConnectStart 12, ConnectDone 22]
                    @ [TLSHandshakeStart 22, TLSHandshakeDone 52]"
       and dns = "[DNSStart 2, DNSDone 12]" and tls = "[TLSHandshakeStart 22, TLSHandshakeDone 52]"
       and dS = 2 and dD = 12 and cS = 12 and cD = 22 and tS = 22 and tD = 52
       and k = 53 and k' = 53 and w = 54 and w' = 54 and f = 90 and f' = 90
       and a = 0 and b = 95 and se = "[]"]
  by (simp add: freshEvents_def Execute_response finish_def zeroTimings_def split: prod.splits)

theorem Execute_timing_invariant_counterexample:
  "case Execute 0 71 [] (New (exampleClient redirectEvents (Inr exampleResponse)) exampleRequest) of
     (e, t, se') \<Rightarrow>
       e = None
       \<and> DNSDuration (timings t) + ConnectionDialDuration (timings t) + TLSDuration (timings t) = 32
       \<and> TotalConnectionDuration (timings t) = 2
       \<and> \<not> (DNSDuration (timings t) + ConnectionDialDuration (timings t) + TLSDuration (timings t)
              \<le> TotalConnectionDuration (timings t))
       \<and> TotalConnectionDuration (timings t) + RequestWriteDuration (timings t)
            + ResponseDelayDuration (timings t) + ResponseReadDuration (timings t) = 10
       \<and> TotalRequestDuration (timings t) = 71"
proof -
  have "Do (client (New (exampleClient redirectEvents (Inr exampleResponse)) exampleRequest))
          (derivedRequest (request (New (exampleClient redirectEvents (Inr exampleResponse))
             exampleRequest)))
        = (redirectEvents, Inr exampleResponse)"
    by simp
  from Execute_response [OF this] show ?thesis
    by (simp add: redirectEvents_def finish_def zeroTimings_def)
qed

section \<open>Properties of the report\<close>

lemma Join_empty_separator: "Join xs [] = concat xs"
  by (induction xs "[]::string" rule: Join.induct) simp_all

lemma lines_shift:
  "concat (map (\<lambda>k. ''\<newline>'' @ f k) ks) @ ''\<newline>''
     = ''\<newline>'' @ concat (map (\<lambda>k. f k @ ''\<newline>'') ks)"
  by (induction ks) simp_all

lemma sort_mapKeys:
  assumes "mapKeys m keys"
  shows "sort keys = sorted_list_of_set (dom m)"
proof -
  from assms have "distinct keys" and "set keys = dom m"
    by (simp_all add: mapKeys_def)
  then show ?thesis
    by (metis distinct_remdups_id sorted_list_of_set_sort_remdups)
qed

lemma rangeMap_headerLines:
  assumes "mapKeys m keys"
  shows "rangeMap keys m (\<lambda>key value. ''\<newline>'' @ mark @ '' '' @ key @ '': '' @ Join value [])
           @ ''\<newline>''
         = ''\<newline>'' @ headerLines mark m"
proof -
  have fin: "finite (dom m)"
    using assms by (metis mapKeys_def List.finite_set)
  have eq: "rangeMap keys m (\<lambda>key value. ''\<newline>'' @ mark @ '' '' @ key @ '': '' @ Join value [])
        = concat (map (\<lambda>key. ''\<newline>'' @ (mark @ '' '' @ key @ '': '' @ concat (the (m key))))
            (sorted_list_of_set (dom m)))"
    unfolding rangeMap_def sort_mapKeys [OF assms]
    by (rule arg_cong [where f = concat], rule map_cong)
       (use fin in \<open>auto simp: Join_empty_separator\<close>)
  show ?thesis
    by (simp only: eq lines_shift headerLines_def) simp
qed

lemma headerLines_contains:
  assumes "finite (dom m)" and "m key = Some vs"
  shows "sublist (mark @ '' '' @ key @ '': '' @ concat vs @ ''\<newline>'') (headerLines mark m)"
proof -
  from assms have "key \<in> set (sorted_list_of_set (dom m))"
    by auto
  then obtain ys zs where "sorted_list_of_set (dom m) = ys @ key # zs"
    by (meson split_list)
  then have "headerLines mark m =
      concat (map (\<lambda>key. mark @ '' '' @ key @ '': '' @ concat (the (m key)) @ ''\<newline>'') ys)
      @ (mark @ '' '' @ key @ '': '' @ concat vs @ ''\<newline>'')
      @ concat (map (\<lambda>key. mark @ '' '' @ key @ '': '' @ concat (the (m key)) @ ''\<newline>'') zs)"
    using assms(2) by (simp add: headerLines_def)
  then show ?thesis
    unfolding sublist_def by blast
qed

text \<open>The output of the template in the layout of the test, for each setting of the flags.\<close>

lemma outputTmpl_layout:
  assumes "URL req = Some url"
      and "mapKeys (Header req) reqKeys"
      and "mapKeys (RespHeader res) resKeys"
  shows "outputTmpl dm reqKeys resKeys
           \<lparr>Request = Some req, Response = Some res, ResponseBody = body, Timings = Some tm,
            Presentation = Some \<lparr>SuppressHeaders = sh, SuppressBody = sb\<rparr>\<rparr>
         = Inr (expectedRequestHeadersOutput req url
                @ expectedResponseStatusOutput res
                @ (if sh then [] else expectedResponseHeadersOutput res)
                @ (if sb then [] else body)
                @ (if sb then ''\<newline>'' else ''\<newline>\<newline>'')
                @ expectedTraceOutput dm tm)"
proof -
  let ?q = "rangeMap reqKeys (Header req)
              (\<lambda>key value. ''\<newline>'' @ ''>'' @ '' '' @ key @ '': '' @ Join value [])"
  let ?s = "rangeMap resKeys (RespHeader res)
              (\<lambda>key value. ''\<newline>'' @ ''<'' @ '' '' @ key @ '': '' @ Join value [])"
  have q: "?q @ ''\<newline>'' @ xs = ''\<newline>'' @ headerLines ''>'' (Header req) @ xs" for xs
    using rangeMap_headerLines [OF assms(2), of "''>''"] by (metis append.assoc)
  have s: "?s @ ''\<newline>'' @ xs = ''\<newline>'' @ headerLines ''<'' (RespHeader res) @ xs" for xs
    using rangeMap_headerLines [OF assms(3), of "''<''"] by (metis append.assoc)
  have "outputTmpl dm reqKeys resKeys
           \<lparr>Request = Some req, Response = Some res, ResponseBody = body, Timings = Some tm,
            Presentation = Some \<lparr>SuppressHeaders = sh, SuppressBody = sb\<rparr>\<rparr>
        = Inr (''> '' @ Method req @ '' '' @ Host url @ Path url @ '' '' @ Proto req
               @ ?q @ ''\<newline>'' @ ''>\<newline>< '' @ Status res
               @ (if sh then ''\<newline>'' else ?s @ ''\<newline>'')
               @ (if sb then [] else body @ ''\<newline>'')
               @ ''\<newline>'' @ expectedTraceOutput dm tm)"
    using assms(1) by (simp add: outputTmpl_def field_def expectedTraceOutput_def)
  also have "\<dots> = Inr (expectedRequestHeadersOutput req url
                @ expectedResponseStatusOutput res
                @ (if sh then [] else expectedResponseHeadersOutput res)
                @ (if sb then [] else body)
                @ (if sb then ''\<newline>'' else ''\<newline>\<newline>'')
                @ expectedTraceOutput dm tm)"
    unfolding q
    by (cases sh; cases sb)
       (simp_all only: s if_True if_False, 
        simp_all add: expectedRequestHeadersOutput_def expectedResponseStatusOutput_def
          expectedResponseHeadersOutput_def
          rangeMap_headerLines [OF assms(3), of "''<''", simplified])
  finally show ?thesis .
qed

text \<open>
  C8.  For a request with a URL, a response, a timing record and the key orders of
  the two header maps: with both flags false \<^verbatim>\<open>Build\<close> succeeds and the output is
  the request block (request line, request headers, a line \<^verbatim>\<open>>\<close>), the status line,
  one line for every response header, the body, an empty line and the trace section,
  so that every header of the response has its line in the output; with both flags
  true the output is the request block, the status line, an empty line and the trace
  section, and nothing else.
\<close>

theorem Build_suppression:
  assumes "URL req = Some url"
      and "mapKeys (Header req) reqKeys"
      and "mapKeys (RespHeader res) resKeys"
  shows "fst (Build dm reqKeys resKeys (New_report (Some req) (Some res) body (Some tm)
                (Some \<lparr>SuppressHeaders = False, SuppressBody = False\<rparr>))) = None
         \<and> output' (snd (Build dm reqKeys resKeys (New_report (Some req) (Some res) body (Some tm)
                (Some \<lparr>SuppressHeaders = False, SuppressBody = False\<rparr>))))
             = expectedRequestHeadersOutput req url @ expectedResponseStatusOutput res
               @ expectedResponseHeadersOutput res @ body @ ''\<newline>\<newline>''
               @ expectedTraceOutput dm tm
         \<and> (\<forall>key value. RespHeader res key = Some value \<longrightarrow>
               sublist (''< '' @ key @ '': '' @ concat value @ ''\<newline>'')
                 (expectedResponseHeadersOutput res))
         \<and> fst (Build dm reqKeys resKeys (New_report (Some req) (Some res) body (Some tm)
                (Some \<lparr>SuppressHeaders = True, SuppressBody = True\<rparr>))) = None
         \<and> output' (snd (Build dm reqKeys resKeys (New_report (Some req) (Some res) body (Some tm)
                (Some \<lparr>SuppressHeaders = True, SuppressBody = True\<rparr>))))
             = expectedRequestHeadersOutput req url @ expectedResponseStatusOutput res
               @ ''\<newline>'' @ expectedTraceOutput dm tm"
proof -
  have "finite (dom (RespHeader res))"
    using assms(3) by (metis mapKeys_def List.finite_set)
  then have "sublist (''< '' @ key @ '': '' @ concat vs @ ''\<newline>'')
               (expectedResponseHeadersOutput res)"
    if "RespHeader res key = Some vs" for key vs
    using that headerLines_contains [where m = "RespHeader res" and key = key and vs = vs
                 and mark = "''<''"]
    by (simp add: expectedResponseHeadersOutput_def)
  then show ?thesis
    by (simp add: Build_def New_report_def outputTmpl_layout [OF assms])
qed

theorem Build_suppression_witness:
  "URL exampleRequest = Some \<lparr>Host = ''thing.com'', Path = []\<rparr>
   \<and> mapKeys (Header exampleRequest) [''X-Hello'']
   \<and> mapKeys (RespHeader exampleResponse) [''X-Some-Header'', ''Content-Type'', ''Vary'']
   \<and> Build testMillis [''X-Hello''] [''X-Some-Header'', ''Content-Type'', ''Vary'']
         (New_report (Some exampleRequest) (Some exampleResponse) testBody (Some testTimings)
            (Some \<lparr>SuppressHeaders = False, SuppressBody = False\<rparr>))
       = (None, (New_report (Some exampleRequest) (Some exampleResponse) testBody (Some testTimings)
            (Some \<lparr>SuppressHeaders = False, SuppressBody = False\<rparr>))\<lparr>output' := expectedFull\<rparr>)
   \<and> Build testMillis [''X-Hello''] [''X-Some-Header'', ''Content-Type'', ''Vary'']
         (New_report (Some exampleRequest) (Some exampleResponse) testBody (Some testTimings)
            (Some \<lparr>SuppressHeaders = True, SuppressBody = True\<rparr>))
       = (None, (New_report (Some exampleRequest) (Some exampleResponse) testBody (Some testTimings)
            (Some \<lparr>SuppressHeaders = True, SuppressBody = True\<rparr>))\<lparr>output' := expectedSuppressed\<rparr>)
   \<and> sublist ''< X-Some-Header: onetwothree\<newline>'' (expectedResponseHeadersOutput exampleResponse)"
proof -
  have keys: "mapKeys (Header exampleRequest) [''X-Hello'']"
      "mapKeys (RespHeader exampleResponse) [''X-Some-Header'', ''Content-Type'', ''Vary'']"
    by (auto simp: mapKeys_def exampleRequest_def exampleResponse_def)
  have url: "URL exampleRequest = Some \<lparr>Host = ''thing.com'', Path = []\<rparr>"
    by (simp add: exampleRequest_def)
  have full: "output' (snd (Build testMillis [''X-Hello''] [''X-Some-Header'', ''Content-Type'', ''Vary'']
         (New_report (Some exampleRequest) (Some exampleResponse) testBody (Some testTimings)
            (Some \<lparr>SuppressHeaders = False, SuppressBody = False\<rparr>)))) = expectedFull"
    by (simp add: Build_def New_report_def outputTmpl_def field_def rangeMap_def exampleRequest_def
          exampleResponse_def testBody_def testTimings_def testMillis_def zeroTimings_def
          expectedFull_def)
  have none: "output' (snd (Build testMillis [''X-Hello''] [''X-Some-Header'', ''Content-Type'', ''Vary'']
         (New_report (Some exampleRequest) (Some exampleResponse) testBody (Some testTimings)
            (Some \<lparr>SuppressHeaders = True, SuppressBody = True\<rparr>)))) = expectedSuppressed"
    by (simp add: Build_def New_report_def outputTmpl_def field_def rangeMap_def exampleRequest_def
          exampleResponse_def testBody_def testTimings_def testMillis_def zeroTimings_def
          expectedSuppressed_def)
  have hdr: "RespHeader exampleResponse ''X-Some-Header'' = Some [''one'', ''two'', ''three'']"
    by (simp add: exampleResponse_def)
  from Build_suppression [OF url keys, of testMillis testBody testTimings]
  have "fst (Build testMillis [''X-Hello''] [''X-Some-Header'', ''Content-Type'', ''Vary'']
         (New_report (Some exampleRequest) (Some exampleResponse) testBody (Some testTimings)
            (Some \<lparr>SuppressHeaders = False, SuppressBody = False\<rparr>))) = None"
    and "fst (Build testMillis [''X-Hello''] [''X-Some-Header'', ''Content-Type'', ''Vary'']
         (New_report (Some exampleRequest) (Some exampleResponse) testBody (Some testTimings)
            (Some \<lparr>SuppressHeaders = True, SuppressBody = True\<rparr>))) = None"
    and "sublist (''< '' @ ''X-Some-Header'' @ '': '' @ concat [''one'', ''two'', ''three''] @ ''\<newline>'')
           (expectedResponseHeadersOutput exampleResponse)"
    using hdr by blast+
  then show ?thesis
    using url keys full none
    by (simp add: Build_def split: sum.splits)
qed


text \<open>
  C9.  The result of \<^verbatim>\<open>Build\<close> (the error, or the report with its output) is
  determined by the report data and the formatting function alone: for any two
  orders in which the keys of the request's header map may come, and any two orders
  for the response's, the result is the same.
\<close>

theorem Build_deterministic:
  assumes "mapKeys mq reqKeys" and "mapKeys mq reqKeys'"
      and "mapKeys ms resKeys" and "mapKeys ms resKeys'"
  shows "Build dm reqKeys resKeys r = Build dm reqKeys' resKeys' r"
proof -
  have "sort reqKeys = sort reqKeys'" and "sort resKeys = sort resKeys'"
    using assms by (simp_all add: sort_mapKeys)
  then have "rangeMap reqKeys = rangeMap reqKeys'" and "rangeMap resKeys = rangeMap resKeys'"
    by (simp_all add: rangeMap_def fun_eq_iff)
  then have "outputTmpl dm reqKeys resKeys (data r) = outputTmpl dm reqKeys' resKeys' (data r)"
    by (simp only: outputTmpl_def)
  then show ?thesis
    by (simp add: Build_def)
qed

theorem Build_deterministic_witness:
  "mapKeys (RespHeader exampleResponse) [''X-Some-Header'', ''Content-Type'', ''Vary'']
   \<and> mapKeys (RespHeader exampleResponse) [''Vary'', ''X-Some-Header'', ''Content-Type'']
   \<and> mapKeys (Header exampleRequest) [''X-Hello'']
   \<and> Build testMillis [''X-Hello''] [''X-Some-Header'', ''Content-Type'', ''Vary'']
         (New_report (Some exampleRequest) (Some exampleResponse) testBody (Some testTimings)
            (Some \<lparr>SuppressHeaders = False, SuppressBody = False\<rparr>))
       = Build testMillis [''X-Hello''] [''Vary'', ''X-Some-Header'', ''Content-Type'']
         (New_report (Some exampleRequest) (Some exampleResponse) testBody (Some testTimings)
            (Some \<lparr>SuppressHeaders = False, SuppressBody = False\<rparr>))"
proof -
  have keys: "mapKeys (Header exampleRequest) [''X-Hello'']"
      "mapKeys (RespHeader exampleResponse) [''X-Some-Header'', ''Content-Type'', ''Vary'']"
      "mapKeys (RespHeader exampleResponse) [''Vary'', ''X-Some-Header'', ''Content-Type'']"
    by (auto simp: mapKeys_def exampleRequest_def exampleResponse_def)
  from Build_deterministic [OF keys(1) keys(1) keys(2) keys(3)] keys show ?thesis
    by simp
qed

end
